theory Spec2Isabelle
  imports Main
begin

section \<open>Data model of \<open>core/snips/SnipsConsoleManager.py\<close>\<close>

text \<open>
  Values that come out of \<open>req.json()\<close> and that are stored in the configuration.
  Floating point numbers do not occur in the code paths modelled here.
\<close>

datatype json =
    JNull
  | JBool bool
  | JNum int
  | JStr string
  | JArr "json list"
  | JObj "(string \<times> json) list"

text \<open>
  Every exception the modelled code can raise; all of them are subclasses of Python's
  \<open>Exception\<close>, so an \<open>except Exception\<close> clause catches each one.
\<close>

datatype exc =
    ConnectionError      \<comment> \<open>\<open>requests.request\<close> could not deliver the request\<close>
  | JSONDecodeError      \<comment> \<open>\<open>req.json()\<close> on a body that is not JSON\<close>
  | KeyError string      \<comment> \<open>\<open>d[k]\<close> on a dict without key \<open>k\<close>\<close>
  | TypeError            \<comment> \<open>\<open>v[k]\<close> on a value that is not a dict\<close>
  | AttributeError       \<comment> \<open>attribute access on \<open>None\<close>\<close>
  | ConstructorError     \<comment> \<open>a model class rejects the data it is built from\<close>
  | OSError              \<comment> \<open>\<open>write_bytes\<close> fails\<close>
  | TokenFetchError      \<comment> \<open>line 97: \<open>Error fetching JWT console token\<close>\<close>
  | ApiError int         \<comment> \<open>line 128: \<open>Snips API return a error\<close>\<close>
  | TrainingWentWrong    \<comment> \<open>line 157: \<open>Something went wrong while training the assistant\<close>\<close>

text \<open>Python truthiness of a JSON value (\<open>if accessToken:\<close>).\<close>

fun truthy :: "json \<Rightarrow> bool" where
  "truthy JNull = False"
| "truthy (JBool b) = b"
| "truthy (JNum n) = (n \<noteq> 0)"
| "truthy (JStr s) = (s \<noteq> [])"
| "truthy (JArr xs) = (xs \<noteq> [])"
| "truthy (JObj kvs) = (kvs \<noteq> [])"

text \<open>\<open>v[k]\<close> for a string key \<open>k\<close>.\<close>

fun subscript :: "json \<Rightarrow> string \<Rightarrow> exc + json" where
  "subscript (JObj kvs) k = (case map_of kvs k of None \<Rightarrow> Inl (KeyError k) | Some v \<Rightarrow> Inr v)"
| "subscript _ k = Inl TypeError"

text \<open>
  A request as \<open>_req\<close> hands it to \<open>requests.request\<close> (line 208); \<open>http_method\<close> is its
  argument \<open>method\<close>, \<open>data\<close> the JSON body, \<open>hdrs\<close> the headers at the time of sending.
\<close>

record request =
  http_method :: string
  url :: string
  params :: "json option"
  data :: "json option"
  hdrs :: "string \<rightharpoonup> string"

text \<open>
  A \<open>requests.Response\<close>: \<open>rjson\<close> is \<open>None\<close> when \<open>req.json()\<close> raises. The header
  names are taken in lower case, as the code reads them.
\<close>

record response =
  status_code :: int
  rheaders :: "string \<rightharpoonup> string"
  rjson :: "json option"
  content :: string

datatype reply = Response response | Unreachable

text \<open>
  Modelled from the spec: \<open>core/snips/model/SnipsConsoleUser.py\<close> is missing. The spec
  gives the user identity the two fields \<open>userId\<close> and \<open>userEmail\<close>.
\<close>

record SnipsConsoleUser =
  userId :: json
  userEmail :: json

text \<open>
  Modelled from the spec: \<open>core/snips/model/SnipsTrainingStatus.py\<close> is missing. The spec
  gives each sub-model the pair \<open>{needsTraining, inProgress}\<close>, read together for NLU
  and ASR, and the training request the body \<open>{trainingType: "nlu" | "asr"}\<close>.
\<close>

record SubModelStatus =
  needTraining :: bool
  inProgress :: bool

record TrainingStatusResponse =
  nluStatus :: SubModelStatus
  asrStatus :: SubModelStatus

datatype SnipsTrainingType = NLU | ASR

fun trainingType_value :: "SnipsTrainingType \<Rightarrow> string" where
  "trainingType_value NLU = ''nlu''"
| "trainingType_value ASR = ''asr''"

text \<open>Everything the manager does to the outside world, in the order it happens.\<close>

datatype effect =
    Sent request
  | EventSet string
  | EventCleared string
  | Broadcast string
  | FileWritten string

text \<open>
  The collaborators that are not part of the two source files are parameters of the
  model: the remote service (which may answer according to everything it has seen so
  far), the constructors of the two missing model classes (\<open>None\<close> when the constructor
  raises), Python's \<open>str\<close> on a JSON value, the configured login and password, the
  UUID generator and the file system.
\<close>

record env =
  server :: "effect list \<Rightarrow> request \<Rightarrow> reply"
  mkUser :: "json \<Rightarrow> SnipsConsoleUser option"
  mkTrainingStatus :: "json \<Rightarrow> TrainingStatusResponse option"
  py_str :: "json \<Rightarrow> string"
  snipsConsoleLogin :: json
  snipsConsolePassword :: json
  uuid4 :: "effect list \<Rightarrow> string"
  write_ok :: "effect list \<Rightarrow> string \<Rightarrow> bool"

text \<open>
  The manager's fields (\<open>_connected\<close>, \<open>_tries\<close>, \<open>_user\<close>, \<open>_headers\<close>), the snips
  configuration under the parent \<open>project-alice\<close> (a key that holds nothing reads as
  the empty string, the value the code writes to clear a key), the events of the thread
  manager and the effects so far.
\<close>

record state =
  connected :: bool
  tries :: int
  user :: "SnipsConsoleUser option"
  headers :: "string \<rightharpoonup> string"
  config :: "string \<Rightarrow> json"
  events :: "string \<rightharpoonup> bool"
  trace :: "effect list"

text \<open>\<open>__init__\<close>, lines 17-27, with an empty configuration and no events.\<close>

definition init :: state where
  "init = \<lparr> connected = False, tries = 0, user = None,
            headers = [''Accept'' \<mapsto> ''application/json'', ''Content-Type'' \<mapsto> ''application/json''],
            config = (\<lambda>k. JStr ''''), events = Map.empty, trace = [] \<rparr>"

text \<open>
  Modelled from the spec: the configuration store is missing.
  \<open>ConfigManager.updateSnipsConfiguration(parent='project-alice', key, value)\<close> stores one
  value under one key.
\<close>

definition updateSnipsConfiguration :: "state \<Rightarrow> string \<Rightarrow> json \<Rightarrow> state" where
  "updateSnipsConfiguration s k v = s\<lparr>config := (config s)(k := v)\<rparr>"

text \<open>Lines 214-217 and 185-188: the four keys are set to the empty string.\<close>

definition clearCredentials :: "state \<Rightarrow> state" where
  "clearCredentials s =
     updateSnipsConfiguration
       (updateSnipsConfiguration
         (updateSnipsConfiguration
           (updateSnipsConfiguration s ''console_token'' (JStr ''''))
           ''console_alias'' (JStr ''''))
         ''console_user_id'' (JStr ''''))
       ''console_user_email'' (JStr '''')"

text \<open>Lines 81-82: the bearer token from the header, the user from the body.\<close>

definition auth_reply :: "env \<Rightarrow> response \<Rightarrow> exc + (string \<times> SnipsConsoleUser)" where
  "auth_reply e req =
     (case rheaders req ''authorization'' of
        None \<Rightarrow> Inl (KeyError ''authorization'')
      | Some token \<Rightarrow>
          (case rjson req of
             None \<Rightarrow> Inl JSONDecodeError
           | Some j \<Rightarrow>
               (case subscript j ''user'' of
                  Inl x \<Rightarrow> Inl x
                | Inr uj \<Rightarrow>
                    (case mkUser e uj of
                       None \<Rightarrow> Inl ConstructorError
                     | Some u \<Rightarrow> Inr (token, u)))))"

text \<open>
  Lines 86-95: the four writes, one after the other, then the header and the flags. Each
  \<open>accessToken[...]\<close> is evaluated just before the write that uses it.
\<close>

definition saveAccessToken :: "env \<Rightarrow> state \<Rightarrow> json \<Rightarrow> state \<times> (exc + unit)" where
  "saveAccessToken e s accessToken =
     (case subscript accessToken ''token'' of
        Inl x \<Rightarrow> (s, Inl x)
      | Inr tok \<Rightarrow>
          (let s1 = updateSnipsConfiguration s ''console_token'' tok in
           case subscript accessToken ''alias'' of
             Inl x \<Rightarrow> (s1, Inl x)
           | Inr al \<Rightarrow>
               (let s2 = updateSnipsConfiguration s1 ''console_alias'' al in
                case user s2 of
                  None \<Rightarrow> (s2, Inl AttributeError)
                | Some u \<Rightarrow>
                    (let s3 = updateSnipsConfiguration s2 ''console_user_id'' (userId u);
                         s4 = updateSnipsConfiguration s3 ''console_user_email'' (userEmail u);
                         s5 = s4\<lparr>headers := (headers s4)(''Authorization'' \<mapsto> ''JWT '' @ py_str e tok)\<rparr>
                     in (s5\<lparr>connected := True, tries := 0\<rparr>, Inr ())))))"

text \<open>Line 108: \<open>f'projectalice{uuid.uuid4()}'.replace('-', '')[:29]\<close>.\<close>

definition mkAlias :: "string \<Rightarrow> string" where
  "mkAlias u = take 29 (filter (\<lambda>c. c \<noteq> CHR ''-'') (''projectalice'' @ u))"

definition mkRequest :: "state \<Rightarrow> string \<Rightarrow> string \<Rightarrow> json option \<Rightarrow> json option \<Rightarrow> request" where
  "mkRequest s u m p d =
     \<lparr> http_method = m, url = ''https://external-gateway.snips.ai'' @ u, params = p, data = d,
       hdrs = headers s \<rparr>"

text \<open>Lines 211-217: what \<open>_req\<close> does on a 401 before it calls \<open>_login\<close>.\<close>

definition unauthorized :: "state \<Rightarrow> state" where
  "unauthorized s =
     clearCredentials (s\<lparr>headers := (headers s)(''Authorization'' := None), connected := False\<rparr>)"

section \<open>\<open>_login\<close>, \<open>_getAccessToken\<close> and \<open>_req\<close>\<close>

text \<open>
  A method whose name starts with an underscore in the source is written with the
  prefix \<open>priv_\<close> here. The three functions call each other: \<open>_login\<close> sends its two
  requests through \<open>_req\<close> (the second one inside \<open>_getAccessToken\<close>), and \<open>_req\<close> calls
  \<open>_login\<close> on a 401. Each returns the state it leaves behind together with its result
  or the exception it raises.
\<close>

function priv_login :: "env \<Rightarrow> state \<Rightarrow> state \<times> (exc + unit)"
  and priv_getAccessToken :: "env \<Rightarrow> state \<Rightarrow> string \<Rightarrow> state \<times> (exc + json)"
  and priv_req :: "env \<Rightarrow> state \<Rightarrow> string \<Rightarrow> string \<Rightarrow> json option \<Rightarrow> json option
                   \<Rightarrow> state \<times> (exc + response)"
where
  "priv_login e s =
     (let s0 = s\<lparr>tries := tries s + 1\<rparr> in
      if tries s0 > 3 then (s0\<lparr>tries := 0\<rparr>, Inr ())
      else
        (case priv_req e s0 ''/v1/user/auth'' ''post'' None
                (Some (JObj [(''email'', snipsConsoleLogin e),
                             (''password'', snipsConsolePassword e)])) of
           (s1, Inl x) \<Rightarrow> (s1, Inl x)
         | (s1, Inr req) \<Rightarrow>
             if status_code req = 200 then
               (case (case auth_reply e req of
                        Inl x \<Rightarrow> (s1, Inl x)
                      | Inr (token, u) \<Rightarrow>
                          (case priv_getAccessToken e (s1\<lparr>user := Some u\<rparr>) token of
                             (s2, Inl x) \<Rightarrow> (s2, Inl x)
                           | (s2, Inr accessToken) \<Rightarrow>
                               if truthy accessToken then saveAccessToken e s2 accessToken
                               else (s2, Inl TokenFetchError))) of
                  (s3, Inl x) \<Rightarrow> (s3\<lparr>connected := False\<rparr>, Inr ())
                | (s3, Inr _) \<Rightarrow> (s3, Inr ()))
             else (s1\<lparr>connected := False\<rparr>, Inr ())))"
| "priv_getAccessToken e s token =
     (let alias = mkAlias (uuid4 e (trace s));
          s1 = s\<lparr>headers := (headers s)(''Authorization'' \<mapsto> token)\<rparr> in
      case user s1 of
        None \<Rightarrow> (s1, Inl AttributeError)
      | Some u \<Rightarrow>
          (case priv_req e s1 (''/v1/user/'' @ py_str e (userId u) @ ''/accesstoken'') ''post''
                  None (Some (JObj [(''alias'', JStr alias)])) of
             (s2, Inl x) \<Rightarrow> (s2, Inl x)
           | (s2, Inr req) \<Rightarrow>
               if status_code req = 201 then
                 (case rjson req of
                    None \<Rightarrow> (s2, Inl JSONDecodeError)
                  | Some j \<Rightarrow>
                      (case subscript j ''token'' of
                         Inl x \<Rightarrow> (s2, Inl x)
                       | Inr t \<Rightarrow> (s2, Inr t)))
               else (s2, Inr (JObj []))))"
| "priv_req e s u m p d =
     (let rq = mkRequest s u m p d;
          s1 = s\<lparr>trace := trace s @ [Sent rq]\<rparr> in
      case server e (trace s) rq of
        Unreachable \<Rightarrow> (s1, Inl ConnectionError)
      | Response req \<Rightarrow>
          if status_code req = 401 then
            (case priv_login e (unauthorized s1) of
               (s2, Inl x) \<Rightarrow> (s2, Inl x)
             | (s2, Inr _) \<Rightarrow> (s2, Inr req))
          else (s1, Inr req))"
  by pat_completeness auto

text \<open>
  The recursion ends because every login that is started inside another one finds a
  larger counter: \<open>_login\<close> increments it before its first request, a request that is
  not answered with 401 leaves it alone, and \<open>_login\<close> gives up beyond 3.
\<close>

termination
proof (relation "measure (\<lambda>x. case x of
            Inl (e, s) \<Rightarrow> 3 * nat (4 - tries s)
          | Inr (Inl (e, s, t)) \<Rightarrow> 3 * nat (4 - tries s) + 2
          | Inr (Inr (e, s, u, m, p, d)) \<Rightarrow> 3 * nat (4 - tries s) + 1)", goal_cases)
  case 1
  show ?case by simp
next
  case (2 e s s0)
  then show ?case by simp
next
  case (3 e s s0 s1 y req tu token u)
  have sent: "priv_req e s0 ''/v1/user/auth'' ''post'' None
          (Some (JObj [(''email'', snipsConsoleLogin e), (''password'', snipsConsolePassword e)]))
        = (s1, Inr req)"
    using 3(3,4) by simp
  have "tries s1 = tries s0"
    using sent 3(5) unfolding priv_req.psimps [OF 3(8)]
    by (auto simp: Let_def split: reply.splits if_splits prod.splits sum.splits)
  with 3(1,2) show ?case by simp
next
  case 4
  then show ?case by simp
next
  case 5
  then show ?case
    by (simp add: unauthorized_def clearCredentials_def updateSnipsConfiguration_def)
qed

declare priv_login.simps [simp del] priv_getAccessToken.simps [simp del] priv_req.simps [simp del]

text \<open>Lines 191-195.\<close>

definition login :: "env \<Rightarrow> state \<Rightarrow> state \<times> (exc + unit)" where
  "login e s = (if connected s then (s, Inr ()) else priv_login e s)"

text \<open>
  Lines 180-188. \<open>self._user.userId\<close> is evaluated for the URL first, then the alias is
  read from the configuration.
\<close>

definition priv_logout :: "env \<Rightarrow> state \<Rightarrow> state \<times> (exc + unit)" where
  "priv_logout e s =
     (case user s of
        None \<Rightarrow> (s, Inl AttributeError)
      | Some u \<Rightarrow>
          (case priv_req e s
                  (''/v1/user/'' @ py_str e (userId u) @ ''/accesstoken/'' @
                     py_str e (config s ''console_alias''))
                  ''get'' None None of
             (s1, Inl x) \<Rightarrow> (s1, Inl x)
           | (s1, Inr _) \<Rightarrow>
               (clearCredentials
                  (s1\<lparr>headers := (headers s1)(''Authorization'' := None), connected := False\<rparr>),
                Inr ())))"

section \<open>Training and download\<close>

text \<open>Lines 121-122.\<close>

definition priv_trainAssistant ::
  "env \<Rightarrow> state \<Rightarrow> string \<Rightarrow> SnipsTrainingType \<Rightarrow> state \<times> (exc + unit)" where
  "priv_trainAssistant e s assistantId trainingType =
     (case priv_req e s (''/v2/training/assistant/'' @ assistantId) ''post'' None
             (Some (JObj [(''trainingType'', JStr (trainingType_value trainingType))])) of
        (s1, Inl x) \<Rightarrow> (s1, Inl x)
      | (s1, Inr _) \<Rightarrow> (s1, Inr ()))"

text \<open>Lines 125-129.\<close>

definition priv_trainingStatus ::
  "env \<Rightarrow> state \<Rightarrow> string \<Rightarrow> state \<times> (exc + TrainingStatusResponse)" where
  "priv_trainingStatus e s assistantId =
     (case priv_req e s (''/v2/training/assistant/'' @ assistantId) ''get'' None None of
        (s1, Inl x) \<Rightarrow> (s1, Inl x)
      | (s1, Inr req) \<Rightarrow>
          if status_code req div 100 = 4 then (s1, Inl (ApiError (status_code req)))
          else
            (case rjson req of
               None \<Rightarrow> (s1, Inl JSONDecodeError)
             | Some j \<Rightarrow>
                 (case mkTrainingStatus e j of
                    None \<Rightarrow> (s1, Inl ConstructorError)
                  | Some t \<Rightarrow> (s1, Inr t))))"

text \<open>
  Modelled from the spec: the thread manager and its events are missing. An event is a
  named flag that is created unset, set, and cleared; \<open>getEvent\<close> of a name that was never
  created gives \<open>None\<close>, so that calling \<open>clear\<close> on it raises.
\<close>

definition newEvent :: "state \<Rightarrow> string \<Rightarrow> state" where
  "newEvent s n = s\<lparr>events := (events s)(n \<mapsto> False)\<rparr>"

definition setEvent :: "state \<Rightarrow> string \<Rightarrow> state" where
  "setEvent s n = s\<lparr>events := (events s)(n \<mapsto> True), trace := trace s @ [EventSet n]\<rparr>"

definition clearEvent :: "state \<Rightarrow> string \<Rightarrow> state \<times> (exc + unit)" where
  "clearEvent s n =
     (case events s n of
        None \<Rightarrow> (s, Inl AttributeError)
      | Some _ \<Rightarrow>
          (s\<lparr>events := (events s)(n \<mapsto> False), trace := trace s @ [EventCleared n]\<rparr>, Inr ()))"

text \<open>The \<open>if\<close>/\<open>elif\<close> chain of lines 138-157, in the order of the source.\<close>

datatype branch = BranchDone | BranchWait | BranchTrainNLU | BranchTrainASR | BranchWentWrong

definition handleTraining_branch :: "TrainingStatusResponse \<Rightarrow> branch" where
  "handleTraining_branch trainingStatus =
     (if \<not> needTraining (nluStatus trainingStatus) \<and> \<not> inProgress (nluStatus trainingStatus) \<and>
         \<not> needTraining (asrStatus trainingStatus) \<and> \<not> inProgress (asrStatus trainingStatus)
      then BranchDone
      else if inProgress (nluStatus trainingStatus) \<or> inProgress (asrStatus trainingStatus)
      then BranchWait
      else if needTraining (nluStatus trainingStatus) \<and>
              \<not> inProgress (nluStatus trainingStatus) \<and>
              \<not> inProgress (asrStatus trainingStatus)
      then BranchTrainNLU
      else if \<not> inProgress (nluStatus trainingStatus) \<and>
              needTraining (asrStatus trainingStatus) \<and>
              \<not> inProgress (asrStatus trainingStatus)
      then BranchTrainASR
      else BranchWentWrong)"

text \<open>
  One pass through the body of the \<open>while\<close> loop, lines 136-159. The five seconds of
  sleep at its end change nothing in the state.
\<close>

definition handleTraining_tick :: "env \<Rightarrow> state \<Rightarrow> string \<Rightarrow> state \<times> (exc + unit)" where
  "handleTraining_tick e s assistantId =
     (case priv_trainingStatus e s assistantId of
        (s1, Inl x) \<Rightarrow> (s1, Inl x)
      | (s1, Inr trainingStatus) \<Rightarrow>
          (case handleTraining_branch trainingStatus of
             BranchDone \<Rightarrow> clearEvent s1 ''TrainingAssistantLock''
           | BranchWait \<Rightarrow> (s1, Inr ())
           | BranchTrainNLU \<Rightarrow> priv_trainAssistant e s1 assistantId NLU
           | BranchTrainASR \<Rightarrow> priv_trainAssistant e s1 assistantId ASR
           | BranchWentWrong \<Rightarrow> (s1, Inl TrainingWentWrong)))"

text \<open>
  The \<open>while trainingLock.isSet()\<close> loop. The remote service may report a training in
  progress for ever, so the loop need not return: \<open>None\<close> stands for a run that never
  ends.
\<close>

partial_function (option) handleTraining_loop ::
  "env \<Rightarrow> string \<Rightarrow> state \<Rightarrow> (state \<times> (exc + unit)) option" where
  "handleTraining_loop e assistantId s =
     (if events s ''TrainingAssistantLock'' = Some True then
        (case handleTraining_tick e s assistantId of
           (s1, Inl x) \<Rightarrow> Some (s1, Inl x)
         | (s1, Inr _) \<Rightarrow> handleTraining_loop e assistantId s1)
      else Some (s, Inr ()))"

text \<open>Lines 132-159.\<close>

definition priv_handleTraining :: "env \<Rightarrow> state \<Rightarrow> string \<Rightarrow> (state \<times> (exc + unit)) option" where
  "priv_handleTraining e s assistantId =
     handleTraining_loop e assistantId
       (setEvent (newEvent s ''TrainingAssistantLock'') ''TrainingAssistantLock'')"

text \<open>Lines 164-172: the body of the \<open>try\<close>, once the training has returned.\<close>

definition download_rest :: "env \<Rightarrow> state \<Rightarrow> string \<Rightarrow> state \<times> (exc + bool)" where
  "download_rest e s assistantId =
     (case priv_req e s (''/v3/assistant/'' @ assistantId @ ''/download'') ''get'' None None of
        (s1, Inl x) \<Rightarrow> (s1, Inl x)
      | (s1, Inr req) \<Rightarrow>
          if write_ok e (trace s1) (content req) then
            (case clearEvent (s1\<lparr>trace := trace s1 @ [FileWritten (content req)]\<rparr>)
                    ''SnipsAssistantDownload'' of
               (s2, Inl x) \<Rightarrow> (s2, Inl x)
             | (s2, Inr _) \<Rightarrow> (s2, Inr True))
          else (s1, Inl OSError))"

text \<open>Lines 173-177: the \<open>except Exception\<close> clause.\<close>

definition download_failed :: "state \<Rightarrow> state \<times> (exc + bool)" where
  "download_failed s =
     (case clearEvent (s\<lparr>trace := trace s @ [Broadcast ''onSnipsAssistantDownloadFailed'']\<rparr>)
             ''SnipsAssistantDownload'' of
        (s1, Inl x) \<Rightarrow> (s1, Inl x)
      | (s1, Inr _) \<Rightarrow> (s1, Inr False))"

text \<open>Lines 162-177. \<open>None\<close> when the training loop never returns.\<close>

definition download :: "env \<Rightarrow> state \<Rightarrow> string \<Rightarrow> (state \<times> (exc + bool)) option" where
  "download e s assistantId =
     (case priv_handleTraining e s assistantId of
        None \<Rightarrow> None
      | Some (s1, Inl x) \<Rightarrow> Some (download_failed s1)
      | Some (s1, Inr _) \<Rightarrow>
          (case download_rest e s1 assistantId of
             (s2, Inl x) \<Rightarrow> Some (download_failed s2)
           | (s2, Inr b) \<Rightarrow> Some (s2, Inr b)))"

text \<open>
  Lines 51-56. The thread that runs \<open>download\<close> is modelled by running it at once; its
  result is what the thread leaves behind.
\<close>

definition doDownload :: "env \<Rightarrow> state \<Rightarrow> string \<Rightarrow> (state \<times> (exc + bool)) option" where
  "doDownload e s projectId =
     download e (setEvent (newEvent s ''SnipsAssistantDownload'') ''SnipsAssistantDownload'')
       projectId"

section \<open>Observations on a run\<close>

text \<open>
  The training command that an effect is, if it is one: a \<open>post\<close> to the training URL of
  the assistant whose body names the training type (lines 121-122).
\<close>

fun train_cmd :: "string \<Rightarrow> effect \<Rightarrow> SnipsTrainingType option" where
  "train_cmd a (Sent r) =
     (if http_method r = ''post'' \<and>
         url r = ''https://external-gateway.snips.ai/v2/training/assistant/'' @ a
      then (if data r = Some (JObj [(''trainingType'', JStr ''nlu'')]) then Some NLU
            else if data r = Some (JObj [(''trainingType'', JStr ''asr'')]) then Some ASR
            else None)
      else None)"
| "train_cmd a _ = None"

definition train_cmds :: "string \<Rightarrow> effect list \<Rightarrow> SnipsTrainingType list" where
  "train_cmds a tr = List.map_filter (train_cmd a) tr"

text \<open>The number of status requests for the assistant (line 126) in a list of effects.\<close>

fun status_fetch :: "string \<Rightarrow> effect \<Rightarrow> bool" where
  "status_fetch a (Sent r) \<longleftrightarrow>
     http_method r = ''get'' \<and>
     url r = ''https://external-gateway.snips.ai/v2/training/assistant/'' @ a"
| "status_fetch a _ \<longleftrightarrow> False"

definition status_fetches :: "string \<Rightarrow> effect list \<Rightarrow> nat" where
  "status_fetches a tr = length (filter (status_fetch a) tr)"

text \<open>How often an event was cleared.\<close>

fun is_cleared :: "string \<Rightarrow> effect \<Rightarrow> bool" where
  "is_cleared n (EventCleared m) \<longleftrightarrow> m = n"
| "is_cleared n _ \<longleftrightarrow> False"

definition clears :: "string \<Rightarrow> effect list \<Rightarrow> nat" where
  "clears n tr = length (filter (is_cleared n) tr)"

text \<open>
  What a run of \<open>_handleTraining\<close> from a given state comes to: how it ends, the training
  commands it has sent and the number of times it has fetched the status.
\<close>

definition handleTraining_outcome ::
  "env \<Rightarrow> state \<Rightarrow> string \<Rightarrow> ((exc + unit) \<times> SnipsTrainingType list \<times> nat) option" where
  "handleTraining_outcome e s a =
     (case priv_handleTraining e s a of
        None \<Rightarrow> None
      | Some (s', r) \<Rightarrow> Some (r, train_cmds a (trace s'), status_fetches a (trace s')))"

text \<open>
  Effects that are requests to the login endpoints \<open>/v1/user/...\<close>, and what every call
  of the three login functions guarantees: the events are left alone, the trace grows by
  the request itself (\<open>pre\<close>) and by login requests only, a counter that is at most 3
  stays at most 3, and only exceptions from \<open>X\<close> are raised.
\<close>

definition auth_traffic :: "effect list \<Rightarrow> bool" where
  "auth_traffic evs \<longleftrightarrow>
     (\<forall>ev \<in> set evs. \<exists>r rest.
        ev = Sent r \<and> url r = ''https://external-gateway.snips.ai/v1/user/'' @ rest)"

definition auth_step :: "exc set \<Rightarrow> state \<Rightarrow> effect list \<Rightarrow> state \<times> (exc + 'a) \<Rightarrow> bool" where
  "auth_step X s pre r \<longleftrightarrow>
     events (fst r) = events s \<and>
     (\<exists>evs. trace (fst r) = trace s @ pre @ evs \<and> auth_traffic evs) \<and>
     (tries s \<le> 3 \<longrightarrow> tries (fst r) \<le> 3) \<and>
     (\<forall>y. snd r = Inl y \<longrightarrow> y \<in> X)"

text \<open>The two requests of a login attempt (lines 72-77 and 108-110).\<close>

definition auth_request :: "env \<Rightarrow> state \<Rightarrow> request" where
  "auth_request e s =
     mkRequest s ''/v1/user/auth'' ''post'' None
       (Some (JObj [(''email'', snipsConsoleLogin e), (''password'', snipsConsolePassword e)]))"

definition exchange_request :: "env \<Rightarrow> state \<Rightarrow> string \<Rightarrow> SnipsConsoleUser \<Rightarrow> request" where
  "exchange_request e s token u =
     mkRequest (s\<lparr>headers := (headers s)(''Authorization'' \<mapsto> token)\<rparr>)
       (''/v1/user/'' @ py_str e (userId u) @ ''/accesstoken'') ''post'' None
       (Some (JObj [(''alias'', JStr (mkAlias (uuid4 e (trace s @ [Sent (auth_request e s)]))))]))"

section \<open>Example collaborators\<close>

text \<open>
  A remote service that answers from two scripts, one for the \<open>get\<close> requests and one
  for the others, in the order in which the requests arrive; it is unreachable once a
  script is used up.
\<close>

fun sent_with :: "bool \<Rightarrow> effect list \<Rightarrow> nat" where
  "sent_with g [] = 0"
| "sent_with g (Sent r # tr) =
     (if (http_method r = ''get'') = g then Suc (sent_with g tr) else sent_with g tr)"
| "sent_with g (_ # tr) = sent_with g tr"

fun nth_reply :: "response list \<Rightarrow> nat \<Rightarrow> reply" where
  "nth_reply [] n = Unreachable"
| "nth_reply (r # rs) 0 = Response r"
| "nth_reply (r # rs) (Suc n) = nth_reply rs n"

definition script_server ::
  "response list \<Rightarrow> response list \<Rightarrow> effect list \<Rightarrow> request \<Rightarrow> reply" where
  "script_server gets posts tr rq =
     (if http_method rq = ''get'' then nth_reply gets (sent_with True tr)
      else nth_reply posts (sent_with False tr))"

definition example_user :: "json \<Rightarrow> SnipsConsoleUser option" where
  "example_user j =
     (case subscript j ''id'' of
        Inl _ \<Rightarrow> None
      | Inr i \<Rightarrow>
          (case subscript j ''email'' of
             Inl _ \<Rightarrow> None
           | Inr m \<Rightarrow> Some \<lparr> userId = i, userEmail = m \<rparr>))"

definition example_subModel :: "json \<Rightarrow> SubModelStatus option" where
  "example_subModel j =
     (case subscript j ''needTraining'' of
        Inl _ \<Rightarrow> None
      | Inr n \<Rightarrow>
          (case subscript j ''inProgress'' of
             Inl _ \<Rightarrow> None
           | Inr p \<Rightarrow> Some \<lparr> needTraining = truthy n, inProgress = truthy p \<rparr>))"

definition example_trainingStatus :: "json \<Rightarrow> TrainingStatusResponse option" where
  "example_trainingStatus j =
     (case subscript j ''nluStatus'' of
        Inl _ \<Rightarrow> None
      | Inr n \<Rightarrow>
          (case subscript j ''asrStatus'' of
             Inl _ \<Rightarrow> None
           | Inr a \<Rightarrow>
               (case example_subModel n of
                  None \<Rightarrow> None
                | Some ns \<Rightarrow>
                    (case example_subModel a of
                       None \<Rightarrow> None
                     | Some as \<Rightarrow> Some \<lparr> nluStatus = ns, asrStatus = as \<rparr>))))"

fun example_str :: "json \<Rightarrow> string" where
  "example_str (JStr s) = s"
| "example_str _ = ''?''"

definition example_env :: "response list \<Rightarrow> response list \<Rightarrow> env" where
  "example_env gets posts =
     \<lparr> server = script_server gets posts,
       mkUser = example_user,
       mkTrainingStatus = example_trainingStatus,
       py_str = example_str,
       snipsConsoleLogin = JStr ''alice@example.org'',
       snipsConsolePassword = JStr ''secret'',
       uuid4 = (\<lambda>tr. ''123e4567-e89b-12d3-a456-426614174000''),
       write_ok = (\<lambda>tr c. True) \<rparr>"

definition plain :: "int \<Rightarrow> response" where
  "plain c = \<lparr> status_code = c, rheaders = Map.empty, rjson = None, content = [] \<rparr>"

definition status_reply :: "bool \<Rightarrow> bool \<Rightarrow> bool \<Rightarrow> bool \<Rightarrow> response" where
  "status_reply nluNeeds nluRuns asrNeeds asrRuns =
     \<lparr> status_code = 200, rheaders = Map.empty,
       rjson = Some (JObj
         [(''nluStatus'', JObj [(''needTraining'', JBool nluNeeds), (''inProgress'', JBool nluRuns)]),
          (''asrStatus'', JObj [(''needTraining'', JBool asrNeeds), (''inProgress'', JBool asrRuns)])]),
       content = [] \<rparr>"

definition auth_ok :: response where
  "auth_ok =
     \<lparr> status_code = 200, rheaders = [''authorization'' \<mapsto> ''bearer-1''],
       rjson = Some (JObj [(''user'', JObj [(''id'', JStr ''u1''),
                                            (''email'', JStr ''alice@example.org'')])]),
       content = [] \<rparr>"

definition token_reply :: "(string \<times> json) list \<Rightarrow> response" where
  "token_reply kvs =
     \<lparr> status_code = 201, rheaders = Map.empty,
       rjson = Some (JObj [(''token'', JObj kvs)]), content = [] \<rparr>"


text \<open>The state in which \<open>doDownload\<close> starts the thread: the completion event is set.\<close>

definition started :: state where
  "started = setEvent (newEvent init ''SnipsAssistantDownload'') ''SnipsAssistantDownload''"

text \<open>How many commands of one training type a run of \<open>_handleTraining\<close> has sent.\<close>

definition commands_sent :: "env \<Rightarrow> state \<Rightarrow> string \<Rightarrow> SnipsTrainingType \<Rightarrow> nat option" where
  "commands_sent e s a t =
     (case handleTraining_outcome e s a of
        None \<Rightarrow> None
      | Some (r, cmds, n) \<Rightarrow> Some (count_list cmds t))"

text \<open>
  Effects of the training loop: requests, and the clearing of the loop's own lock.
\<close>

definition training_traffic :: "effect list \<Rightarrow> bool" where
  "training_traffic evs \<longleftrightarrow>
     (\<forall>ev \<in> set evs. (\<exists>r. ev = Sent r) \<or> ev = EventCleared ''TrainingAssistantLock'')"

text \<open>
  The status sequence of the end-to-end scenario: both need training; NLU in progress
  and ASR in need; NLU done and ASR in progress; both done. Every training command is
  answered with status 200.
\<close>

definition scenario_env :: env where
  "scenario_env =
     example_env
       [status_reply True False True False, status_reply False True True False,
        status_reply False False False True, status_reply False False False False]
       [plain 200, plain 200]"

text \<open>NLU needs training on the first tick, nothing is left to do on the second.\<close>

definition after_training_env :: env where
  "after_training_env =
     example_env [status_reply True False False False, status_reply False False False False]
       [plain 200]"

text \<open>
  Only ASR needs training on the first tick, both need it on the second, nothing is
  left to do on the third.
\<close>

definition asr_first_env :: env where
  "asr_first_env =
     example_env
       [status_reply False False True False, status_reply True False True False,
        status_reply False False False False]
       [plain 200, plain 200]"

text \<open>The state in which the loop starts: the lock is set (lines 133-134).\<close>

definition locked :: state where
  "locked = setEvent (newEvent init ''TrainingAssistantLock'') ''TrainingAssistantLock''"



text \<open>The \<open>Authorization\<close> header of every request of a trace, in the order of sending.\<close>

fun auth_headers_sent :: "effect list \<Rightarrow> string option list" where
  "auth_headers_sent [] = []"
| "auth_headers_sent (Sent r # tr) = hdrs r ''Authorization'' # auth_headers_sent tr"
| "auth_headers_sent (_ # tr) = auth_headers_sent tr"

text \<open>
  Services for the login: one that accepts the login and the token exchange; one whose
  first answer to a status request is 401 and that accepts the login that follows; one
  that answers the token exchange with 500; one that answers the first token exchange
  with 401 and accepts the login that follows; and one whose answer to the token
  exchange carries a token and no alias.
\<close>

definition api_token :: response where
  "api_token = token_reply [(''token'', JStr ''jwt-1''), (''alias'', JStr ''alias-1'')]"

definition login_env :: env where
  "login_env = example_env [] [auth_ok, api_token]"

definition expired_env :: env where
  "expired_env = example_env [plain 401] [auth_ok, api_token]"

definition exchange_500_env :: env where
  "exchange_500_env = example_env [status_reply False False False False] [auth_ok, plain 500]"

definition relogin_env :: env where
  "relogin_env = example_env [] [auth_ok, plain 401, auth_ok, api_token]"

definition no_alias_env :: env where
  "no_alias_env = example_env [] [auth_ok, token_reply [(''token'', JStr ''jwt-1'')]]"

text \<open>
  Login attempts one after the other, each starting in the state that the one before
  has left behind.
\<close>

fun logins :: "env \<Rightarrow> nat \<Rightarrow> state \<Rightarrow> state" where
  "logins e 0 s = s"
| "logins e (Suc n) s = logins e n (fst (priv_login e s))"

text \<open>
  A service that answers every request with 403, and one that answers the first status
  request with 401 and cannot be reached for the login that follows.
\<close>

definition forbidden_env :: env where
  "forbidden_env = (example_env [] [])\<lparr>server := (\<lambda>tr rq. Response (plain 403))\<rparr>"

definition lost_env :: env where
  "lost_env = example_env [plain 401] []"

section \<open>What a login leaves alone\<close>

lemma auth_traffic_simps [simp]:
  "auth_traffic []"
  "auth_traffic (xs @ ys) \<longleftrightarrow> auth_traffic xs \<and> auth_traffic ys"
  "auth_traffic (Sent r # xs) \<longleftrightarrow>
     (\<exists>rest. url r = ''https://external-gateway.snips.ai/v1/user/'' @ rest) \<and> auth_traffic xs"
  by (auto simp: auth_traffic_def)

lemma saveAccessToken_quiet:
  "saveAccessToken e s t = (s', x) \<Longrightarrow>
     events s' = events s \<and> trace s' = trace s \<and> (tries s \<le> 3 \<longrightarrow> tries s' \<le> 3)"
  by (auto simp: saveAccessToken_def updateSnipsConfiguration_def Let_def
           split: sum.splits option.splits)

lemma unauthorized_quiet [simp]:
  "events (unauthorized s) = events s" "trace (unauthorized s) = trace s"
  "tries (unauthorized s) = tries s"
  by (simp_all add: unauthorized_def clearCredentials_def updateSnipsConfiguration_def)

lemma auth_steps:
  "auth_step {ConnectionError} s [] (priv_login e s)"
  "auth_step UNIV s [] (priv_getAccessToken e s token)"
  "auth_step {ConnectionError} s [Sent (mkRequest s u m p d)] (priv_req e s u m p d)"
proof (induction e s and e s token and e s u m p d rule: priv_login_priv_getAccessToken_priv_req.induct)
  case (1 e s)
  let ?s0 = "s\<lparr>tries := tries s + 1\<rparr>"
  let ?call = "priv_req e ?s0 ''/v1/user/auth'' ''post'' None
                (Some (JObj [(''email'', snipsConsoleLogin e),
                             (''password'', snipsConsolePassword e)]))"
  show ?case
  proof (cases "3 < tries s + 1")
    case True
    then show ?thesis
      by (simp add: priv_login.simps auth_step_def)
  next
    case False
    obtain s1 r1 where call: "?call = (s1, r1)" by (cases ?call)
    have "auth_step {ConnectionError} ?s0
               [Sent (mkRequest ?s0 ''/v1/user/auth'' ''post'' None
                (Some (JObj [(''email'', snipsConsoleLogin e),
                             (''password'', snipsConsolePassword e)])))] (s1, r1)"
      using 1(1) [OF refl] False call by simp
    with False have A: "auth_step {ConnectionError} s [] (s1, r1)"
      by (auto simp: auth_step_def mkRequest_def)
    have B: "auth_step UNIV (s1\<lparr>user := Some u\<rparr>) []
               (priv_getAccessToken e (s1\<lparr>user := Some u\<rparr>) token)"
      if "r1 = Inr req" "status_code req = 200" "auth_reply e req = Inr (token, u)"
      for req token u
      using 1(2) [OF refl _ call [symmetric] that(1,2,3) refl] False by simp
    have unfold: "priv_login e s =
        (case r1 of
           Inl x \<Rightarrow> (s1, Inl x)
         | Inr req \<Rightarrow>
             if status_code req = 200 then
               (case (case auth_reply e req of
                        Inl x \<Rightarrow> (s1, Inl x)
                      | Inr (token, u) \<Rightarrow>
                          (case priv_getAccessToken e (s1\<lparr>user := Some u\<rparr>) token of
                             (s2, Inl x) \<Rightarrow> (s2, Inl x)
                           | (s2, Inr accessToken) \<Rightarrow>
                               if truthy accessToken then saveAccessToken e s2 accessToken
                               else (s2, Inl TokenFetchError))) of
                  (s3, Inl x) \<Rightarrow> (s3\<lparr>connected := False\<rparr>, Inr ())
                | (s3, Inr _) \<Rightarrow> (s3, Inr ()))
             else (s1\<lparr>connected := False\<rparr>, Inr ()))"
      using False by (subst priv_login.simps) (simp add: Let_def call)
    show ?thesis
    proof (cases r1)
      case (Inl x)
      with A show ?thesis by (simp add: unfold auth_step_def)
    next
      case (Inr req)
      show ?thesis
      proof (cases "status_code req = 200")
        case no: False
        with A Inr show ?thesis by (simp add: unfold auth_step_def)
      next
        case yes: True
        show ?thesis
        proof (cases "auth_reply e req")
          case (Inl x)
          with A Inr yes show ?thesis by (simp add: unfold auth_step_def)
        next
          case ar: (Inr tu)
          obtain token u where tu: "tu = (token, u)" by (cases tu)
          obtain s2 r2 where gat: "priv_getAccessToken e (s1\<lparr>user := Some u\<rparr>) token = (s2, r2)"
            by (cases "priv_getAccessToken e (s1\<lparr>user := Some u\<rparr>) token")
          from B [OF Inr yes ar [unfolded tu]] gat
          have C: "auth_step UNIV (s1\<lparr>user := Some u\<rparr>) [] (s2, r2)" by simp
          from A C have D: "auth_step {ConnectionError} s [] (s2, Inr ())"
            by (auto simp: auth_step_def)
          show ?thesis
          proof (cases r2)
            case (Inl x)
            with D Inr yes ar tu gat show ?thesis by (simp add: unfold auth_step_def)
          next
            case at: (Inr accessToken)
            show ?thesis
            proof (cases "truthy accessToken")
              case False
              with D Inr yes ar tu gat at show ?thesis by (simp add: unfold auth_step_def)
            next
              case True
              obtain s3 r3 where sv: "saveAccessToken e s2 accessToken = (s3, r3)"
                by (cases "saveAccessToken e s2 accessToken")
              from saveAccessToken_quiet [OF sv] D Inr yes ar tu gat at True sv
              show ?thesis
                by (cases r3) (auto simp add: unfold auth_step_def)
            qed
          qed
        qed
      qed
    qed
  qed
next
  case (2 e s token)
  show ?case
    apply (subst priv_getAccessToken.simps)
    using 2 [OF refl refl]
    apply (auto simp: Let_def auth_step_def mkRequest_def
             split: prod.splits sum.splits if_splits option.splits)
    done
next
  case (3 e s u m p d)
  show ?case
    apply (subst priv_req.simps)
    using 3 [OF refl refl]
    apply (auto simp: Let_def auth_step_def split: prod.splits sum.splits if_splits reply.splits)
    done
qed
lemma priv_req_raises:
  "priv_req e s u m p d = (s', Inl x) \<Longrightarrow> x = ConnectionError"
  using auth_steps(3) [of s u m p d e] by (simp add: auth_step_def)

lemma priv_req_events:
  "priv_req e s u m p d = (s', r) \<Longrightarrow> events s' = events s"
  using auth_steps(3) [of s u m p d e] by (simp add: auth_step_def)

lemma priv_req_trace:
  "priv_req e s u m p d = (s', r) \<Longrightarrow>
     \<exists>evs. trace s' = trace s @ Sent (mkRequest s u m p d) # evs \<and> auth_traffic evs"
  using auth_steps(3) [of s u m p d e] by (simp add: auth_step_def)

lemma branch_cases:
  "handleTraining_branch t \<in> {BranchDone, BranchWait, BranchTrainNLU, BranchTrainASR}"
  by (simp add: handleTraining_branch_def)

lemma tick_never_went_wrong:
  "snd (handleTraining_tick e s a) \<noteq> Inl TrainingWentWrong"
proof -
  obtain s1 r1 where st: "priv_trainingStatus e s a = (s1, r1)"
    by (cases "priv_trainingStatus e s a")
  show ?thesis
  proof (cases r1)
    case (Inl x)
    with st have "x \<noteq> TrainingWentWrong"
      by (auto simp: priv_trainingStatus_def split: prod.splits sum.splits if_splits option.splits
               dest: priv_req_raises)
    with st Inl show ?thesis by (simp add: handleTraining_tick_def)
  next
    case (Inr t)
    have "snd (priv_trainAssistant e s1 a tt) \<noteq> Inl TrainingWentWrong" for tt
      by (auto simp: priv_trainAssistant_def split: prod.splits sum.splits dest: priv_req_raises)
    moreover have "snd (clearEvent s1 n) \<noteq> Inl TrainingWentWrong" for n
      by (simp add: clearEvent_def split: option.splits)
    moreover note branch_cases [of t]
    ultimately show ?thesis
      using st Inr by (auto simp: handleTraining_tick_def)
  qed
qed

text \<open>
  C10. Whatever the four flags of the fetched status are, the chain of conditions of
  lines 138-157 ends in one of the four branches Done, Wait, train NLU and train ASR,
  and a pass through the loop body never raises the exception of the final \<open>else\<close>.
\<close>

theorem C10_final_else_unreachable:
  "handleTraining_branch t \<in> {BranchDone, BranchWait, BranchTrainNLU, BranchTrainASR} \<and>
   snd (handleTraining_tick e s a) \<noteq> Inl TrainingWentWrong"
  using branch_cases tick_never_went_wrong by blast

lemma train_cmds_simps [simp]:
  "train_cmds a [] = []"
  "train_cmds a (xs @ ys) = train_cmds a xs @ train_cmds a ys"
  "train_cmds a (ev # xs) = (case train_cmd a ev of None \<Rightarrow> [] | Some t \<Rightarrow> [t]) @ train_cmds a xs"
  by (simp_all add: train_cmds_def List.map_filter_def split: option.splits)

lemma clears_simps [simp]:
  "clears n [] = 0"
  "clears n (xs @ ys) = clears n xs + clears n ys"
  "clears n (ev # xs) = (if is_cleared n ev then 1 else 0) + clears n xs"
  by (simp_all add: clears_def)

lemma training_traffic_simps [simp]:
  "training_traffic []"
  "training_traffic (xs @ ys) \<longleftrightarrow> training_traffic xs \<and> training_traffic ys"
  "training_traffic (Sent r # xs) \<longleftrightarrow> training_traffic xs"
  "training_traffic (EventCleared ''TrainingAssistantLock'' # xs) \<longleftrightarrow> training_traffic xs"
  by (auto simp: training_traffic_def)

lemma auth_traffic_training: "auth_traffic evs \<Longrightarrow> training_traffic evs"
  by (auto simp: auth_traffic_def training_traffic_def)

lemma auth_traffic_no_train: "auth_traffic evs \<Longrightarrow> train_cmds a evs = []"
  by (induction evs) (auto simp: auth_traffic_def)


lemma priv_trainingStatus_step:
  assumes "priv_trainingStatus e s a = (s', r)"
  shows "events s' = events s"
    and "\<exists>evs. trace s' =
           trace s @ Sent (mkRequest s (''/v2/training/assistant/'' @ a) ''get'' None None) # evs \<and>
           auth_traffic evs"
  using assms
  by (auto simp: priv_trainingStatus_def split: prod.splits sum.splits if_splits option.splits
           dest: priv_req_events priv_req_trace)

lemma priv_trainAssistant_step:
  assumes "priv_trainAssistant e s a t = (s', r)"
  shows "events s' = events s"
    and "\<exists>evs. trace s' =
           trace s @ Sent (mkRequest s (''/v2/training/assistant/'' @ a) ''post'' None
             (Some (JObj [(''trainingType'', JStr (trainingType_value t))]))) # evs \<and>
           auth_traffic evs"
  using assms
  by (auto simp: priv_trainAssistant_def split: prod.splits sum.splits
           dest: priv_req_events priv_req_trace)

lemma tick_step:
  assumes "handleTraining_tick e s a = (s', r)"
  shows "\<forall>n. n \<noteq> ''TrainingAssistantLock'' \<longrightarrow> events s' n = events s n"
    and "\<exists>evs. trace s' = trace s @ evs \<and> training_traffic evs"
proof -
  obtain s1 r1 where st: "priv_trainingStatus e s a = (s1, r1)"
    by (cases "priv_trainingStatus e s a")
  note A = priv_trainingStatus_step [OF st]
  from A(2) obtain evs1 where evs1: "trace s1 = trace s @ evs1" "training_traffic evs1"
    by (auto dest: auth_traffic_training)
  have B: "(\<forall>n. n \<noteq> ''TrainingAssistantLock'' \<longrightarrow> events s' n = events s1 n) \<and>
           (\<exists>evs. trace s' = trace s1 @ evs \<and> training_traffic evs)"
  proof (cases r1)
    case (Inl x)
    with st assms show ?thesis by (simp add: handleTraining_tick_def)
  next
    case (Inr t)
    show ?thesis
    proof (cases "handleTraining_branch t")
      case BranchDone
      with st Inr assms show ?thesis
        by (auto simp: handleTraining_tick_def clearEvent_def split: option.splits)
    next
      case BranchWait
      with st Inr assms show ?thesis by (simp add: handleTraining_tick_def)
    next
      case BranchTrainNLU
      with st Inr assms have "priv_trainAssistant e s1 a NLU = (s', r)"
        by (simp add: handleTraining_tick_def)
      from priv_trainAssistant_step [OF this] show ?thesis
        by (auto dest: auth_traffic_training)
    next
      case BranchTrainASR
      with st Inr assms have "priv_trainAssistant e s1 a ASR = (s', r)"
        by (simp add: handleTraining_tick_def)
      from priv_trainAssistant_step [OF this] show ?thesis
        by (auto dest: auth_traffic_training)
    next
      case BranchWentWrong
      with st Inr assms show ?thesis by (simp add: handleTraining_tick_def)
    qed
  qed
  from A(1) B show "\<forall>n. n \<noteq> ''TrainingAssistantLock'' \<longrightarrow> events s' n = events s n"
    by simp
  from B evs1 show "\<exists>evs. trace s' = trace s @ evs \<and> training_traffic evs"
    by auto
qed

lemma loop_step_fst:
  assumes "handleTraining_loop e a s = Some y"
  shows "(\<forall>n. n \<noteq> ''TrainingAssistantLock'' \<longrightarrow> events (fst y) n = events s n) \<and>
         (\<exists>evs. trace (fst y) = trace s @ evs \<and> training_traffic evs)"
proof (rule handleTraining_loop.raw_induct
    [where P = "\<lambda>e a s y.
       (\<forall>n. n \<noteq> ''TrainingAssistantLock'' \<longrightarrow> events (fst y) n = events s n) \<and>
       (\<exists>evs. trace (fst y) = trace s @ evs \<and> training_traffic evs)", OF _ assms], goal_cases)
  case (1 loop e a s y)
  show ?case
  proof (cases "events s ''TrainingAssistantLock'' = Some True")
    case False
    with 1(2) show ?thesis by auto
  next
    case True
    obtain s1 r1 where tk: "handleTraining_tick e s a = (s1, r1)"
      by (cases "handleTraining_tick e s a")
    note T = tick_step [OF tk]
    show ?thesis
    proof (cases r1)
      case (Inl x)
      with 1(2) True tk T show ?thesis by auto
    next
      case (Inr u)
      with 1(2) True tk have "loop e a s1 = Some y" by simp
      from 1(1) [OF this] T show ?thesis by auto
    qed
  qed
qed

lemma loop_step:
  assumes "handleTraining_loop e a s = Some (s', r)"
  shows "\<forall>n. n \<noteq> ''TrainingAssistantLock'' \<longrightarrow> events s' n = events s n"
    and "\<exists>evs. trace s' = trace s @ evs \<and> training_traffic evs"
  using loop_step_fst [OF assms] by simp_all

section \<open>The training loop on concrete and on arbitrary status sequences\<close>

lemmas run_defs = priv_handleTraining_def handleTraining_outcome_def handleTraining_tick_def
  priv_trainingStatus_def priv_trainAssistant_def handleTraining_branch_def
  example_env_def script_server_def status_reply_def plain_def newEvent_def setEvent_def
  clearEvent_def init_def mkRequest_def example_trainingStatus_def example_subModel_def
  status_fetches_def Let_def

lemma scenario_outcome:
  "handleTraining_outcome scenario_env init ''proj'' = Some (Inr (), [NLU], 4)"
  by (simp add: scenario_env_def run_defs handleTraining_loop.simps priv_req.simps)

lemma after_training_outcome:
  "handleTraining_outcome after_training_env init ''proj'' = Some (Inr (), [NLU], 2)"
  by (simp add: after_training_env_def run_defs handleTraining_loop.simps priv_req.simps)

lemma loop_stops:
  "events s ''TrainingAssistantLock'' \<noteq> Some True \<Longrightarrow>
     handleTraining_loop e a s = Some (s, Inr ())"
  by (subst handleTraining_loop.simps) simp

lemma loop_runs:
  "events s ''TrainingAssistantLock'' = Some True \<Longrightarrow>
     handleTraining_loop e a s =
       (case handleTraining_tick e s a of
          (s1, Inl x) \<Rightarrow> Some (s1, Inl x)
        | (s1, Inr _) \<Rightarrow> handleTraining_loop e a s1)"
  by (subst handleTraining_loop.simps) simp

text \<open>
  C2, as stated, fails: after a tick that was not Done (NLU was sent to training), a
  status with all four flags false ends the loop normally; no exception is raised.
\<close>

theorem C2_counterexample:
  "map_option fst (handleTraining_outcome after_training_env init ''proj'') = Some (Inr ()) \<and>
   map_option fst (handleTraining_outcome after_training_env init ''proj'')
     \<noteq> Some (Inl TrainingWentWrong)"
  by (simp add: after_training_outcome)

text \<open>
  C2, amended. Whatever happened on the ticks before, a tick of the running loop whose
  fetched status has all four flags false is the last one: the lock is cleared, the
  loop returns without an exception, and nothing more is sent.
\<close>

theorem C2_all_false_ends_loop:
  assumes "events s ''TrainingAssistantLock'' = Some True"
    and "priv_trainingStatus e s a = (s1, Inr t)"
    and "\<not> needTraining (nluStatus t)" and "\<not> inProgress (nluStatus t)"
    and "\<not> needTraining (asrStatus t)" and "\<not> inProgress (asrStatus t)"
  shows "handleTraining_loop e a s =
           Some (s1\<lparr>events := (events s1)(''TrainingAssistantLock'' \<mapsto> False),
                    trace := trace s1 @ [EventCleared ''TrainingAssistantLock'']\<rparr>, Inr ())"
proof -
  have ev: "events s1 = events s"
    using priv_trainingStatus_step(1) [OF assms(2)] .
  have "handleTraining_tick e s a =
          (s1\<lparr>events := (events s1)(''TrainingAssistantLock'' \<mapsto> False),
               trace := trace s1 @ [EventCleared ''TrainingAssistantLock'']\<rparr>, Inr ())"
    using assms ev by (simp add: handleTraining_tick_def handleTraining_branch_def clearEvent_def)
  then show ?thesis
    using assms(1) by (simp add: loop_runs loop_stops)
qed

theorem C2_all_false_ends_loop_witness:
  "map_option snd (handleTraining_loop (example_env [status_reply False False False False] [])
      ''proj'' locked) = Some (Inr ())"
proof -
  let ?e = "example_env [status_reply False False False False] []"
  have lock: "events locked ''TrainingAssistantLock'' = Some True"
    by (simp add: locked_def setEvent_def newEvent_def)
  have st: "priv_trainingStatus ?e locked ''proj'' =
      (locked\<lparr>trace := trace locked @
          [Sent (mkRequest locked ''/v2/training/assistant/proj'' ''get'' None None)]\<rparr>,
       Inr \<lparr>nluStatus = \<lparr>needTraining = False, inProgress = False\<rparr>,
            asrStatus = \<lparr>needTraining = False, inProgress = False\<rparr>\<rparr>)"
    by (simp add: run_defs locked_def priv_req.simps)
  show ?thesis
    using C2_all_false_ends_loop [OF lock st] by simp
qed

text \<open>
  C3, as stated, fails for a run as a whole: when the first tick shows only ASR in need
  of training, train ASR is sent first, and train NLU follows on the later tick where
  both need training.
\<close>

theorem C3_counterexample:
  "handleTraining_outcome asr_first_env init ''proj'' = Some (Inr (), [ASR, NLU], 3)"
  by (simp add: asr_first_env_def run_defs handleTraining_loop.simps priv_req.simps)

text \<open>
  C3, amended. On a tick of the running loop whose fetched status shows both sub-models
  in need of training and none in progress, the tick is the sending of train NLU: the
  only training command of the tick is NLU, none is ASR. From such a tick on, the first
  training command of the run is NLU, so a train ASR that follows it comes after a
  train NLU.
\<close>

theorem C3_nlu_first:
  assumes "priv_trainingStatus e s a = (s1, Inr t)"
    and "needTraining (nluStatus t)" and "\<not> inProgress (nluStatus t)"
    and "needTraining (asrStatus t)" and "\<not> inProgress (asrStatus t)"
  shows "handleTraining_tick e s a = priv_trainAssistant e s1 a NLU \<and>
         train_cmds a (trace (fst (handleTraining_tick e s a))) = train_cmds a (trace s) @ [NLU] \<and>
         (events s ''TrainingAssistantLock'' = Some True \<longrightarrow>
            (\<forall>s' r. handleTraining_loop e a s = Some (s', r) \<longrightarrow>
               (\<exists>rest. train_cmds a (trace s') = train_cmds a (trace s) @ NLU # rest)))"
proof -
  have tick: "handleTraining_tick e s a = priv_trainAssistant e s1 a NLU"
    using assms by (simp add: handleTraining_tick_def handleTraining_branch_def)
  obtain s2 r2 where tr: "priv_trainAssistant e s1 a NLU = (s2, r2)"
    by (cases "priv_trainAssistant e s1 a NLU")
  from priv_trainingStatus_step(2) [OF assms(1)] priv_trainAssistant_step(2) [OF tr]
  have cmds: "train_cmds a (trace s2) = train_cmds a (trace s) @ [NLU]"
    by (auto simp: mkRequest_def auth_traffic_no_train)
  have "\<exists>rest. train_cmds a (trace s') = train_cmds a (trace s) @ NLU # rest"
    if lock: "events s ''TrainingAssistantLock'' = Some True"
      and run: "handleTraining_loop e a s = Some (s', r)" for s' r
  proof (cases r2)
    case (Inl x)
    with run lock tick tr cmds show ?thesis by (simp add: loop_runs)
  next
    case (Inr u)
    with run lock tick tr have "handleTraining_loop e a s2 = Some (s', r)"
      by (simp add: loop_runs)
    from loop_step(2) [OF this] cmds show ?thesis by auto
  qed
  with tick tr cmds show ?thesis by simp
qed

theorem C3_nlu_first_witness:
  "train_cmds ''proj'' (trace (fst (handleTraining_tick scenario_env locked ''proj''))) = [NLU] \<and>
   (\<exists>s' r rest. handleTraining_loop scenario_env ''proj'' locked = Some (s', r) \<and>
      train_cmds ''proj'' (trace s') = NLU # rest)"
proof -
  have lock: "events locked ''TrainingAssistantLock'' = Some True"
    by (simp add: locked_def setEvent_def newEvent_def)
  have st: "priv_trainingStatus scenario_env locked ''proj'' =
      (locked\<lparr>trace := trace locked @
          [Sent (mkRequest locked ''/v2/training/assistant/proj'' ''get'' None None)]\<rparr>,
       Inr \<lparr>nluStatus = \<lparr>needTraining = True, inProgress = False\<rparr>,
            asrStatus = \<lparr>needTraining = True, inProgress = False\<rparr>\<rparr>)"
    by (simp add: scenario_env_def run_defs locked_def priv_req.simps)
  have "handleTraining_outcome scenario_env init ''proj'' \<noteq> None"
    by (simp add: scenario_outcome)
  then obtain s' r where run: "handleTraining_loop scenario_env ''proj'' locked = Some (s', r)"
    by (auto simp: handleTraining_outcome_def priv_handleTraining_def locked_def
             split: option.splits)
  have none: "train_cmds ''proj'' (trace locked) = []"
    by (simp add: locked_def setEvent_def newEvent_def init_def)
  from C3_nlu_first [OF st] lock run none show ?thesis
    by auto
qed

text \<open>
  C4, as stated, fails: on the status sequence of the scenario the loop sends no
  train-ASR command at all, not exactly one.
\<close>

theorem C4_counterexample:
  "commands_sent scenario_env init ''proj'' ASR \<noteq> Some 1"
  by (simp add: commands_sent_def scenario_outcome)

text \<open>
  C4, amended. On the status sequence of the scenario the loop sends exactly one
  train-NLU command and no train-ASR command (on the third tick the service already
  reports ASR in progress, so no tick shows ASR in need of training with nothing in
  progress), and it ends normally on the fourth status fetch.
\<close>

theorem C4_scenario:
  "handleTraining_outcome scenario_env init ''proj'' = Some (Inr (), [NLU], 4) \<and>
   commands_sent scenario_env init ''proj'' NLU = Some 1 \<and>
   commands_sent scenario_env init ''proj'' ASR = Some 0"
  by (simp add: commands_sent_def scenario_outcome)

section \<open>The completion event\<close>

lemma clearEvent_once:
  assumes "events s n = Some b"
  shows "clearEvent s n =
           (s\<lparr>events := (events s)(n \<mapsto> False), trace := trace s @ [EventCleared n]\<rparr>, Inr ())"
  using assms by (simp add: clearEvent_def)








section \<open>Requests and login attempts, reply by reply\<close>

lemma priv_req_unreachable:
  "server e (trace s) (mkRequest s u m p d) = Unreachable \<Longrightarrow>
     priv_req e s u m p d =
       (s\<lparr>trace := trace s @ [Sent (mkRequest s u m p d)]\<rparr>, Inl ConnectionError)"
  by (simp add: priv_req.simps)

lemma priv_req_passes:
  "server e (trace s) (mkRequest s u m p d) = Response resp \<Longrightarrow> status_code resp \<noteq> 401 \<Longrightarrow>
     priv_req e s u m p d = (s\<lparr>trace := trace s @ [Sent (mkRequest s u m p d)]\<rparr>, Inr resp)"
  by (simp add: priv_req.simps)

lemma priv_req_401:
  "server e (trace s) (mkRequest s u m p d) = Response resp \<Longrightarrow> status_code resp = 401 \<Longrightarrow>
     priv_req e s u m p d =
       (case priv_login e (unauthorized (s\<lparr>trace := trace s @ [Sent (mkRequest s u m p d)]\<rparr>)) of
          (s2, Inl x) \<Rightarrow> (s2, Inl x)
        | (s2, Inr _) \<Rightarrow> (s2, Inr resp))"
  by (simp add: priv_req.simps)

lemma priv_login_gives_up:
  "3 \<le> tries s \<Longrightarrow> priv_login e s = (s\<lparr>tries := 0\<rparr>, Inr ())"
  by (simp add: priv_login.simps)

lemma login_exchange_fails:
  assumes "tries s < 3"
    and "server e (trace s) (auth_request e s) = Response r1"
    and "status_code r1 = 200"
    and "auth_reply e r1 = Inr (token, u)"
    and "server e (trace s @ [Sent (auth_request e s)]) (exchange_request e s token u) = Response r2"
    and "status_code r2 \<noteq> 201" and "status_code r2 \<noteq> 401"
  shows "priv_login e s =
           (s\<lparr>tries := tries s + 1, user := Some u,
               headers := (headers s)(''Authorization'' \<mapsto> token),
               trace := trace s @ [Sent (auth_request e s), Sent (exchange_request e s token u)],
               connected := False\<rparr>, Inr ())"
proof -
  let ?s0 = "s\<lparr>tries := tries s + 1\<rparr>"
  let ?s1 = "?s0\<lparr>trace := trace s @ [Sent (auth_request e s)]\<rparr>"
  let ?s2 = "?s1\<lparr>user := Some u\<rparr>"
  let ?s3 = "?s2\<lparr>headers := (headers s)(''Authorization'' \<mapsto> token)\<rparr>"
  have a: "priv_req e ?s0 ''/v1/user/auth'' ''post'' None
             (Some (JObj [(''email'', snipsConsoleLogin e), (''password'', snipsConsolePassword e)]))
           = (?s1, Inr r1)"
    using assms(2,3) by (simp add: priv_req.simps auth_request_def mkRequest_def)
  have b: "priv_req e ?s3 (''/v1/user/'' @ py_str e (userId u) @ ''/accesstoken'') ''post'' None
             (Some (JObj [(''alias'', JStr (mkAlias (uuid4 e (trace ?s2))))]))
           = (?s3\<lparr>trace := trace ?s3 @ [Sent (exchange_request e s token u)]\<rparr>, Inr r2)"
    using assms(5,7)
    by (simp add: priv_req.simps exchange_request_def auth_request_def mkRequest_def)
  have c: "priv_getAccessToken e ?s2 token =
             (?s3\<lparr>trace := trace ?s3 @ [Sent (exchange_request e s token u)]\<rparr>, Inr (JObj []))"
    using b assms(6) by (simp add: priv_getAccessToken.simps Let_def)
  show ?thesis
    using assms(1,3,4) a c by (simp add: priv_login.simps Let_def)
qed

lemma login_succeeds:
  assumes "tries s < 3"
    and "server e (trace s) (auth_request e s) = Response r1"
    and "status_code r1 = 200"
    and "auth_reply e r1 = Inr (token, u)"
    and "server e (trace s @ [Sent (auth_request e s)]) (exchange_request e s token u) = Response r2"
    and "status_code r2 = 201" and "rjson r2 = Some j"
    and "subscript j ''token'' = Inr accessToken" and "truthy accessToken"
    and "subscript accessToken ''token'' = Inr tok"
    and "subscript accessToken ''alias'' = Inr al"
  shows "priv_login e s =
           (s\<lparr>tries := 0, user := Some u,
               headers := (headers s)(''Authorization'' \<mapsto> ''JWT '' @ py_str e tok),
               config := (config s)(''console_token'' := tok, ''console_alias'' := al,
                                   ''console_user_id'' := userId u,
                                   ''console_user_email'' := userEmail u),
               trace := trace s @ [Sent (auth_request e s), Sent (exchange_request e s token u)],
               connected := True\<rparr>, Inr ())"
proof -
  let ?s0 = "s\<lparr>tries := tries s + 1\<rparr>"
  let ?s1 = "?s0\<lparr>trace := trace s @ [Sent (auth_request e s)]\<rparr>"
  let ?s2 = "?s1\<lparr>user := Some u\<rparr>"
  let ?s3 = "?s2\<lparr>headers := (headers s)(''Authorization'' \<mapsto> token)\<rparr>"
  let ?s4 = "?s3\<lparr>trace := trace ?s3 @ [Sent (exchange_request e s token u)]\<rparr>"
  have a: "priv_req e ?s0 ''/v1/user/auth'' ''post'' None
             (Some (JObj [(''email'', snipsConsoleLogin e), (''password'', snipsConsolePassword e)]))
           = (?s1, Inr r1)"
    using assms(2,3) by (simp add: priv_req.simps auth_request_def mkRequest_def)
  have b: "priv_req e ?s3 (''/v1/user/'' @ py_str e (userId u) @ ''/accesstoken'') ''post'' None
             (Some (JObj [(''alias'', JStr (mkAlias (uuid4 e (trace ?s2))))]))
           = (?s4, Inr r2)"
    using assms(5,6)
    by (simp add: priv_req.simps exchange_request_def auth_request_def mkRequest_def)
  have c: "priv_getAccessToken e ?s2 token = (?s4, Inr accessToken)"
    using b assms(6,7,8) by (simp add: priv_getAccessToken.simps Let_def)
  have d: "saveAccessToken e ?s4 accessToken =
           (s\<lparr>tries := 0, user := Some u,
               headers := (headers s)(''Authorization'' \<mapsto> ''JWT '' @ py_str e tok),
               config := (config s)(''console_token'' := tok, ''console_alias'' := al,
                                   ''console_user_id'' := userId u,
                                   ''console_user_email'' := userEmail u),
               trace := trace s @ [Sent (auth_request e s), Sent (exchange_request e s token u)],
               connected := True\<rparr>, Inr ())"
    using assms(10,11)
    by (simp add: saveAccessToken_def updateSnipsConfiguration_def Let_def)
  show ?thesis
    using assms(1,3,4,9) a c d by (simp add: priv_login.simps Let_def)
qed

lemmas login_defs = example_env_def script_server_def plain_def auth_ok_def token_reply_def
  api_token_def init_def mkRequest_def auth_reply_def example_user_def saveAccessToken_def
  updateSnipsConfiguration_def unauthorized_def clearCredentials_def mkAlias_def Let_def

lemma login_env_run:
  "snd (priv_login login_env init) = Inr () \<and> connected (fst (priv_login login_env init)) \<and>
   tries (fst (priv_login login_env init)) = 0"
  by (simp add: login_env_def login_defs priv_login.simps priv_getAccessToken.simps priv_req.simps)

lemma relogin_env_run:
  "\<not> connected (fst (priv_login relogin_env init)) \<and>
   config (fst (priv_login relogin_env init)) ''console_token'' = JStr ''jwt-1'' \<and>
   config (fst (priv_login relogin_env init)) ''console_alias'' = JStr ''alias-1''"
  by (simp add: relogin_env_def login_defs priv_login.simps priv_getAccessToken.simps priv_req.simps)

lemma no_alias_env_run:
  "config (fst (priv_login no_alias_env init)) ''console_token'' = JStr ''jwt-1'' \<and>
   config (fst (priv_login no_alias_env init)) ''console_alias'' = JStr [] \<and>
   config (fst (priv_login no_alias_env init)) ''console_user_id'' = JStr [] \<and>
   config (fst (priv_login no_alias_env init)) ''console_user_email'' = JStr [] \<and>
   \<not> connected (fst (priv_login no_alias_env init))"
  by (simp add: no_alias_env_def login_defs priv_login.simps priv_getAccessToken.simps priv_req.simps)

lemma exchange_500_run:
  "auth_headers_sent (trace (fst (priv_trainingStatus exchange_500_env
      (fst (priv_login exchange_500_env init)) ''proj''))) =
     [None, Some ''bearer-1'', Some ''bearer-1'']"
  by (simp add: exchange_500_env_def login_defs priv_trainingStatus_def status_reply_def
        example_trainingStatus_def example_subModel_def
        priv_login.simps priv_getAccessToken.simps priv_req.simps)
lemma unauthorized_state:
  "config (unauthorized s) ''console_token'' = JStr []"
  "config (unauthorized s) ''console_alias'' = JStr []"
  "config (unauthorized s) ''console_user_id'' = JStr []"
  "config (unauthorized s) ''console_user_email'' = JStr []"
  "headers (unauthorized s) ''Authorization'' = None"
  "\<not> connected (unauthorized s)"
  by (simp_all add: unauthorized_def clearCredentials_def updateSnipsConfiguration_def)

lemma logout_clears:
  assumes "priv_logout e s = (s', Inr ())"
  shows "config s' ''console_token'' = JStr [] \<and> config s' ''console_alias'' = JStr [] \<and>
         config s' ''console_user_id'' = JStr [] \<and> config s' ''console_user_email'' = JStr [] \<and>
         headers s' ''Authorization'' = None \<and> \<not> connected s'"
  using assms
  by (auto simp: priv_logout_def clearCredentials_def updateSnipsConfiguration_def
           split: option.splits prod.splits sum.splits)

lemma saveAccessToken_done:
  "saveAccessToken e s t = (s', Inr ()) \<Longrightarrow> connected s' \<and> tries s' = 0"
  by (auto simp: saveAccessToken_def updateSnipsConfiguration_def Let_def
           split: sum.splits option.splits)

lemma connected_after_login:
  assumes "priv_login e s = (s', Inr ())" and "connected s'"
  shows "tries s' = 0"
proof (cases "3 < tries s + 1")
  case True
  with assms show ?thesis by (auto simp: priv_login.simps)
next
  case False
  let ?call = "priv_req e (s\<lparr>tries := tries s + 1\<rparr>) ''/v1/user/auth'' ''post'' None
                (Some (JObj [(''email'', snipsConsoleLogin e),
                             (''password'', snipsConsolePassword e)]))"
  obtain s1 r1 where call: "?call = (s1, r1)" by (cases ?call)
  from assms False show ?thesis
    unfolding priv_login.simps [of e s] Let_def call
    by (auto split: sum.splits if_splits prod.splits dest: saveAccessToken_done)
qed

text \<open>
  C5, as stated, fails when the login that \<open>_req\<close> starts on a 401 cannot deliver its
  own request: line 77 is outside the \<open>try\<close> of line 80, so the exception leaves \<open>_login\<close>
  and \<open>_req\<close>, and the 401 response is not returned to the caller.
\<close>

theorem C5_counterexample:
  "server lost_env (trace init)
     (mkRequest init ''/v2/training/assistant/proj'' ''get'' None None) = Response (plain 401) \<and>
   snd (priv_req lost_env init ''/v2/training/assistant/proj'' ''get'' None None)
     = Inl ConnectionError"
  by (simp add: lost_env_def login_defs priv_login.simps priv_req.simps)

text \<open>
  C5, amended. A request whose answer has status 401 makes \<open>_req\<close> remove the
  \<open>Authorization\<close> header, mark the session unauthenticated, clear the four persisted
  keys and then run a login on that state (\<open>login()\<close> and \<open>_login()\<close> coincide there,
  the session being unauthenticated). When that login returns, the 401 response itself
  is returned; when it raises, which it does only if its request cannot be delivered,
  the exception leaves \<open>_req\<close> in place of the response. \<open>_req\<close> itself sends the
  request once: whatever follows it in the trace are the requests of that login to
  \<open>/v1/user/...\<close>. An answer with any other status is returned with nothing changed but
  the trace.
\<close>

theorem C5_unauthorized_handling:
  assumes "server e (trace s) (mkRequest s u m p d) = Response resp"
  shows "(status_code resp = 401 \<longrightarrow>
            priv_req e s u m p d =
              (case login e (unauthorized (s\<lparr>trace := trace s @ [Sent (mkRequest s u m p d)]\<rparr>)) of
                 (s2, Inl x) \<Rightarrow> (s2, Inl x)
               | (s2, Inr _) \<Rightarrow> (s2, Inr resp))) \<and>
         (status_code resp \<noteq> 401 \<longrightarrow>
            priv_req e s u m p d =
              (s\<lparr>trace := trace s @ [Sent (mkRequest s u m p d)]\<rparr>, Inr resp)) \<and>
         (\<exists>evs. trace (fst (priv_req e s u m p d)) = trace s @ Sent (mkRequest s u m p d) # evs \<and>
                auth_traffic evs) \<and>
         config (unauthorized s) ''console_token'' = JStr [] \<and>
         config (unauthorized s) ''console_alias'' = JStr [] \<and>
         config (unauthorized s) ''console_user_id'' = JStr [] \<and>
         config (unauthorized s) ''console_user_email'' = JStr [] \<and>
         headers (unauthorized s) ''Authorization'' = None \<and>
         \<not> connected (unauthorized s) \<and>
         (snd (priv_req e s u m p d) = Inr resp \<or>
          snd (priv_req e s u m p d) = Inl ConnectionError)"
proof -
  obtain s' r where run: "priv_req e s u m p d = (s', r)"
    by (cases "priv_req e s u m p d")
  from priv_req_trace [OF run] run
  have tr: "\<exists>evs. trace (fst (priv_req e s u m p d)) = trace s @ Sent (mkRequest s u m p d) # evs \<and>
              auth_traffic evs"
    by simp
  have res: "snd (priv_req e s u m p d) = Inr resp \<or> snd (priv_req e s u m p d) = Inl ConnectionError"
  proof (cases r)
    case (Inl x)
    with priv_req_raises run show ?thesis by auto
  next
    case (Inr resp')
    with run assms have "resp' = resp"
      by (auto simp: priv_req.simps Let_def split: if_splits prod.splits sum.splits)
    with Inr run show ?thesis by simp
  qed
  from assms tr res show ?thesis
    by (simp add: priv_req_401 priv_req_passes login_def unauthorized_state)
qed

theorem C5_unauthorized_handling_witness:
  "snd (priv_req expired_env init ''/v2/training/assistant/proj'' ''get'' None None)
     = Inr (plain 401) \<and>
   connected (fst (priv_req expired_env init ''/v2/training/assistant/proj'' ''get'' None None)) \<and>
   headers (fst (priv_req expired_env init ''/v2/training/assistant/proj'' ''get'' None None))
     ''Authorization'' = Some ''JWT jwt-1'' \<and>
   priv_req exchange_500_env init ''/v2/training/assistant/proj'' ''get'' None None =
     (init\<lparr>trace := trace init @
         [Sent (mkRequest init ''/v2/training/assistant/proj'' ''get'' None None)]\<rparr>,
      Inr (status_reply False False False False))"
proof -
  have reply: "server expired_env (trace init)
      (mkRequest init ''/v2/training/assistant/proj'' ''get'' None None) = Response (plain 401)"
    by (simp add: expired_env_def example_env_def script_server_def mkRequest_def init_def)
  have passes: "server exchange_500_env (trace init)
      (mkRequest init ''/v2/training/assistant/proj'' ''get'' None None) =
        Response (status_reply False False False False)"
    by (simp add: exchange_500_env_def example_env_def script_server_def mkRequest_def init_def)
  have ok: "status_code (status_reply False False False False) \<noteq> 401"
    by (simp add: status_reply_def)
  have unauth: "status_code (plain 401) = 401"
    by (simp add: plain_def)
  have "priv_req expired_env init ''/v2/training/assistant/proj'' ''get'' None None =
      (case login expired_env (unauthorized (init\<lparr>trace := trace init @
          [Sent (mkRequest init ''/v2/training/assistant/proj'' ''get'' None None)]\<rparr>)) of
         (s2, Inl x) \<Rightarrow> (s2, Inl x)
       | (s2, Inr _) \<Rightarrow> (s2, Inr (plain 401)))"
    using C5_unauthorized_handling [OF reply] unauth by blast
  then have "snd (priv_req expired_env init ''/v2/training/assistant/proj'' ''get'' None None)
     = Inr (plain 401) \<and>
   connected (fst (priv_req expired_env init ''/v2/training/assistant/proj'' ''get'' None None)) \<and>
   headers (fst (priv_req expired_env init ''/v2/training/assistant/proj'' ''get'' None None))
     ''Authorization'' = Some ''JWT jwt-1''"
    by (simp add: login_def expired_env_def login_defs
          priv_login.simps priv_getAccessToken.simps priv_req.simps)
  moreover have "priv_req exchange_500_env init ''/v2/training/assistant/proj'' ''get'' None None =
     (init\<lparr>trace := trace init @
         [Sent (mkRequest init ''/v2/training/assistant/proj'' ''get'' None None)]\<rparr>,
      Inr (status_reply False False False False))"
    using C5_unauthorized_handling [OF passes] ok by blast
  ultimately show ?thesis by blast
qed

lemma login_refused:
  assumes "tries s < 3"
    and "server e (trace s) (auth_request e s) = Response r"
    and "status_code r \<noteq> 200" and "status_code r \<noteq> 401"
  shows "priv_login e s =
           (s\<lparr>tries := tries s + 1, trace := trace s @ [Sent (auth_request e s)],
               connected := False\<rparr>, Inr ())"
proof -
  have "priv_req e (s\<lparr>tries := tries s + 1\<rparr>) ''/v1/user/auth'' ''post'' None
             (Some (JObj [(''email'', snipsConsoleLogin e), (''password'', snipsConsolePassword e)]))
           = (s\<lparr>tries := tries s + 1, trace := trace s @ [Sent (auth_request e s)]\<rparr>, Inr r)"
    using assms(2,4) by (simp add: priv_req.simps auth_request_def mkRequest_def)
  with assms(1,3) show ?thesis
    by (simp add: priv_login.simps Let_def)
qed

lemma login_unreachable:
  assumes "tries s < 3"
    and "server e (trace s) (auth_request e s) = Unreachable"
  shows "priv_login e s =
           (s\<lparr>tries := tries s + 1, trace := trace s @ [Sent (auth_request e s)]\<rparr>,
            Inl ConnectionError)"
proof -
  have "priv_req e (s\<lparr>tries := tries s + 1\<rparr>) ''/v1/user/auth'' ''post'' None
             (Some (JObj [(''email'', snipsConsoleLogin e), (''password'', snipsConsolePassword e)]))
           = (s\<lparr>tries := tries s + 1, trace := trace s @ [Sent (auth_request e s)]\<rparr>,
              Inl ConnectionError)"
    using assms(2) by (simp add: priv_req.simps auth_request_def mkRequest_def)
  with assms(1) show ?thesis
    by (simp add: priv_login.simps Let_def)
qed

lemma three_refused_logins:
  assumes "tries s = 0"
    and "\<forall>tr rq. \<exists>r. server e tr rq = Response r \<and> status_code r \<noteq> 200 \<and> status_code r \<noteq> 401"
  shows "logins e 3 s =
           s\<lparr>tries := 3,
              trace := trace s @ [Sent (auth_request e s), Sent (auth_request e s),
                                  Sent (auth_request e s)],
              connected := False\<rparr>"
    and "tries (logins e 1 s) = 1" and "tries (logins e 2 s) = 2"
proof -
  have step: "priv_login e t =
           (t\<lparr>tries := tries t + 1, trace := trace t @ [Sent (auth_request e t)],
               connected := False\<rparr>, Inr ())" if "tries t < 3" for t
  proof -
    from assms(2) obtain r where "server e (trace t) (auth_request e t) = Response r"
      "status_code r \<noteq> 200" "status_code r \<noteq> 401" by blast
    with that show ?thesis by (rule login_refused)
  qed
  have same: "auth_request e (t\<lparr>tries := n, trace := tr, connected := c\<rparr>) = auth_request e t"
    for t n tr c
    by (simp add: auth_request_def mkRequest_def)
  let ?s1 = "s\<lparr>tries := 1, trace := trace s @ [Sent (auth_request e s)], connected := False\<rparr>"
  let ?s2 = "s\<lparr>tries := 2, trace := trace s @ [Sent (auth_request e s), Sent (auth_request e s)],
               connected := False\<rparr>"
  have l1: "fst (priv_login e s) = ?s1"
    using step [of s] assms(1) by simp
  have l2: "fst (priv_login e ?s1) = ?s2"
    using step [of ?s1] by (simp add: same)
  have l3: "fst (priv_login e ?s2) =
          s\<lparr>tries := 3,
              trace := trace s @ [Sent (auth_request e s), Sent (auth_request e s),
                                  Sent (auth_request e s)],
              connected := False\<rparr>"
    using step [of ?s2] by (simp add: same)
  show "logins e 3 s =
           s\<lparr>tries := 3,
              trace := trace s @ [Sent (auth_request e s), Sent (auth_request e s),
                                  Sent (auth_request e s)],
              connected := False\<rparr>"
    by (simp add: numeral_3_eq_3 l1 l2 l3)
  show "tries (logins e 1 s) = 1" by (simp add: l1)
  show "tries (logins e 2 s) = 2" by (simp add: numeral_2_eq_2 l1 l2)
qed

text \<open>
  C6. A login attempt that fails is counted: when the login request is refused (a
  status other than 200 and 401), cannot be delivered, or is accepted and followed by a
  failed token exchange, the counter is one more than before. A login attempt that
  would be the fourth in a row sets the counter back to 0 and returns without an
  exception and without sending anything; so, from a counter of 0, three refused
  attempts in a row bring it to 1, 2 and 3 with one request each, and the fourth sends
  nothing and leaves it at 0. A counter that is at most 3 before a login attempt is at
  most 3 after it, however the attempt ends; and when a login attempt returns with the
  session authenticated the counter is 0.
\<close>

theorem C6_login_attempts_bounded:
  "(3 \<le> tries s \<longrightarrow> priv_login e s = (s\<lparr>tries := 0\<rparr>, Inr ())) \<and>
   (tries s \<le> 3 \<longrightarrow> tries (fst (priv_login e s)) \<le> 3) \<and>
   (snd (priv_login e s) = Inr () \<and> connected (fst (priv_login e s)) \<longrightarrow>
      tries (fst (priv_login e s)) = 0) \<and>
   (tries s < 3 \<and> server e (trace s) (auth_request e s) = Response r \<and>
    status_code r \<noteq> 200 \<and> status_code r \<noteq> 401 \<longrightarrow>
      priv_login e s =
        (s\<lparr>tries := tries s + 1, trace := trace s @ [Sent (auth_request e s)],
            connected := False\<rparr>, Inr ())) \<and>
   (tries s < 3 \<and> server e (trace s) (auth_request e s) = Unreachable \<longrightarrow>
      priv_login e s =
        (s\<lparr>tries := tries s + 1, trace := trace s @ [Sent (auth_request e s)]\<rparr>,
         Inl ConnectionError)) \<and>
   (tries s < 3 \<and> server e (trace s) (auth_request e s) = Response r1 \<and>
    status_code r1 = 200 \<and> auth_reply e r1 = Inr (token, u) \<and>
    server e (trace s @ [Sent (auth_request e s)]) (exchange_request e s token u) = Response r2 \<and>
    status_code r2 \<noteq> 201 \<and> status_code r2 \<noteq> 401 \<longrightarrow>
      snd (priv_login e s) = Inr () \<and> tries (fst (priv_login e s)) = tries s + 1) \<and>
   (tries s = 0 \<and>
    (\<forall>tr rq. \<exists>r. server e tr rq = Response r \<and> status_code r \<noteq> 200 \<and> status_code r \<noteq> 401) \<longrightarrow>
      tries (logins e 1 s) = 1 \<and> tries (logins e 2 s) = 2 \<and> tries (logins e 3 s) = 3 \<and>
      trace (logins e 3 s) =
        trace s @ [Sent (auth_request e s), Sent (auth_request e s), Sent (auth_request e s)] \<and>
      priv_login e (logins e 3 s) = ((logins e 3 s)\<lparr>tries := 0\<rparr>, Inr ()) \<and>
      logins e 4 s = (logins e 3 s)\<lparr>tries := 0\<rparr>)"
proof -
  have bound: "tries s \<le> 3 \<longrightarrow> tries (fst (priv_login e s)) \<le> 3"
    using auth_steps(1) [of s e] by (simp add: auth_step_def)
  have zero: "tries (fst (priv_login e s)) = 0"
    if "snd (priv_login e s) = Inr ()" "connected (fst (priv_login e s))"
    using connected_after_login [of e s "fst (priv_login e s)"] that
    by (cases "priv_login e s") auto
  have exch: "snd (priv_login e s) = Inr () \<and> tries (fst (priv_login e s)) = tries s + 1"
    if "tries s < 3" "server e (trace s) (auth_request e s) = Response r1"
      "status_code r1 = 200" "auth_reply e r1 = Inr (token, u)"
      "server e (trace s @ [Sent (auth_request e s)]) (exchange_request e s token u) = Response r2"
      "status_code r2 \<noteq> 201" "status_code r2 \<noteq> 401"
    by (simp add: login_exchange_fails [OF that])
  have row: "tries (logins e 1 s) = 1 \<and> tries (logins e 2 s) = 2 \<and> tries (logins e 3 s) = 3 \<and>
      trace (logins e 3 s) =
        trace s @ [Sent (auth_request e s), Sent (auth_request e s), Sent (auth_request e s)] \<and>
      priv_login e (logins e 3 s) = ((logins e 3 s)\<lparr>tries := 0\<rparr>, Inr ()) \<and>
      logins e 4 s = (logins e 3 s)\<lparr>tries := 0\<rparr>"
    if a: "tries s = 0"
      and b: "\<forall>tr rq. \<exists>r. server e tr rq = Response r \<and> status_code r \<noteq> 200 \<and> status_code r \<noteq> 401"
  proof -
    note T = three_refused_logins [OF a b]
    have three: "tries (logins e 3 s) = 3" by (simp add: T(1))
    then have last: "priv_login e (logins e 3 s) = ((logins e 3 s)\<lparr>tries := 0\<rparr>, Inr ())"
      by (simp add: priv_login_gives_up)
    have four: "logins e (Suc n) t = fst (priv_login e (logins e n t))" for n t
      by (induction n arbitrary: t) simp_all
    have "logins e 4 s = fst (priv_login e (logins e 3 s))"
      using four [of 3 s] by (simp add: eval_nat_numeral)
    with last have "logins e 4 s = (logins e 3 s)\<lparr>tries := 0\<rparr>" by simp
    with T three last show ?thesis by simp
  qed
  from bound zero exch row show ?thesis
    by (auto simp: priv_login_gives_up login_refused login_unreachable)
qed

theorem C6_login_attempts_bounded_witness:
  "priv_login login_env (init\<lparr>tries := 3\<rparr>) = (init\<lparr>tries := 0\<rparr>, Inr ()) \<and>
   tries (fst (priv_login login_env init)) \<le> 3 \<and>
   snd (priv_login login_env init) = Inr () \<and> connected (fst (priv_login login_env init)) \<and>
   tries (fst (priv_login login_env init)) = 0 \<and>
   tries (logins forbidden_env 1 init) = 1 \<and> tries (logins forbidden_env 2 init) = 2 \<and>
   tries (logins forbidden_env 3 init) = 3 \<and>
   trace (logins forbidden_env 4 init) = trace (logins forbidden_env 3 init) \<and>
   tries (logins forbidden_env 4 init) = 0 \<and>
   tries (fst (priv_login exchange_500_env init)) = 1 \<and>
   priv_login lost_env init =
     (init\<lparr>tries := 1, trace := [Sent (auth_request lost_env init)]\<rparr>, Inl ConnectionError)"
proof -
  let ?u = "\<lparr>userId = JStr ''u1'', userEmail = JStr ''alice@example.org''\<rparr>"
  have three: "(3::int) \<le> tries (init\<lparr>tries := 3\<rparr>)" and zero: "tries init \<le> 3"
    and none: "tries init = 0" and few: "tries init < 3" and tr: "trace init = []"
    by (simp_all add: init_def)
  have refuses: "\<forall>tr rq. \<exists>r. server forbidden_env tr rq = Response r \<and>
      status_code r \<noteq> 200 \<and> status_code r \<noteq> 401"
    by (simp add: forbidden_env_def plain_def)
  have b: "server exchange_500_env (trace init) (auth_request exchange_500_env init)
             = Response auth_ok"
    by (simp add: exchange_500_env_def example_env_def script_server_def auth_request_def
          mkRequest_def init_def)
  have c: "status_code auth_ok = 200" by (simp add: auth_ok_def)
  have d: "auth_reply exchange_500_env auth_ok = Inr (''bearer-1'', ?u)"
    by (simp add: exchange_500_env_def example_env_def auth_reply_def auth_ok_def example_user_def)
  have f: "server exchange_500_env (trace init @ [Sent (auth_request exchange_500_env init)])
             (exchange_request exchange_500_env init ''bearer-1'' ?u) = Response (plain 500)"
    by (simp add: exchange_500_env_def example_env_def script_server_def exchange_request_def
          auth_request_def mkRequest_def init_def)
  have g: "status_code (plain 500) \<noteq> 201" "status_code (plain 500) \<noteq> 401"
    by (simp_all add: plain_def)
  have lost: "server lost_env (trace init) (auth_request lost_env init) = Unreachable"
    by (simp add: lost_env_def example_env_def script_server_def auth_request_def
          mkRequest_def init_def)
  have A: "priv_login login_env (init\<lparr>tries := 3\<rparr>) = (init\<lparr>tries := 0\<rparr>, Inr ())"
    using C6_login_attempts_bounded [of "init\<lparr>tries := 3\<rparr>" login_env] three by simp
  have B: "tries (fst (priv_login login_env init)) \<le> 3"
    using C6_login_attempts_bounded [of init login_env] zero by blast
  have C: "tries (fst (priv_login login_env init)) = 0"
    using C6_login_attempts_bounded [of init login_env] login_env_run by blast
  have D: "tries (logins forbidden_env 1 init) = 1 \<and> tries (logins forbidden_env 2 init) = 2 \<and>
      tries (logins forbidden_env 3 init) = 3 \<and>
      logins forbidden_env 4 init = (logins forbidden_env 3 init)\<lparr>tries := 0\<rparr>"
    using C6_login_attempts_bounded [of init forbidden_env] none refuses by blast
  have E: "tries (fst (priv_login exchange_500_env init)) = tries init + 1"
    using C6_login_attempts_bounded [of init exchange_500_env _ auth_ok "''bearer-1''" ?u "plain 500"]
      few b c d f g by blast
  have F: "priv_login lost_env init =
     (init\<lparr>tries := tries init + 1, trace := trace init @ [Sent (auth_request lost_env init)]\<rparr>,
      Inl ConnectionError)"
    using C6_login_attempts_bounded [of init lost_env] few lost by blast
  from A B C D E F login_env_run none tr show ?thesis by simp
qed

text \<open>
  C7, as stated, fails when the status of the failed exchange is 401: \<open>_req\<close> then clears
  the four keys and runs another login inside the exchange; here that login succeeds
  and persists a token and an alias, after which the outer attempt marks the session
  unauthenticated.
\<close>

theorem C7_counterexample:
  "server relogin_env (trace init @ [Sent (auth_request relogin_env init)])
     (exchange_request relogin_env init ''bearer-1''
        \<lparr>userId = JStr ''u1'', userEmail = JStr ''alice@example.org''\<rparr>) = Response (plain 401) \<and>
   \<not> connected (fst (priv_login relogin_env init)) \<and>
   config (fst (priv_login relogin_env init)) ''console_token'' = JStr ''jwt-1'' \<and>
   config init ''console_token'' = JStr []"
proof -
  have "server relogin_env (trace init @ [Sent (auth_request relogin_env init)])
     (exchange_request relogin_env init ''bearer-1''
        \<lparr>userId = JStr ''u1'', userEmail = JStr ''alice@example.org''\<rparr>) = Response (plain 401)"
    by (simp add: relogin_env_def example_env_def script_server_def exchange_request_def
          auth_request_def mkRequest_def init_def)
  moreover have "config init ''console_token'' = JStr []"
    by (simp add: init_def)
  ultimately show ?thesis
    using relogin_env_run by simp
qed

text \<open>
  C7, amended. When the login request is accepted and the token exchange is answered
  with a status other than 201 and other than 401, the login attempt returns with the
  session unauthenticated and with the persisted configuration exactly as it was.
\<close>

theorem C7_failed_exchange_persists_nothing:
  assumes "tries s < 3"
    and "server e (trace s) (auth_request e s) = Response r1"
    and "status_code r1 = 200"
    and "auth_reply e r1 = Inr (token, u)"
    and "server e (trace s @ [Sent (auth_request e s)]) (exchange_request e s token u) = Response r2"
    and "status_code r2 \<noteq> 201" and "status_code r2 \<noteq> 401"
  shows "snd (priv_login e s) = Inr () \<and> \<not> connected (fst (priv_login e s)) \<and>
         config (fst (priv_login e s)) = config s"
  by (simp add: login_exchange_fails [OF assms])

theorem C7_failed_exchange_persists_nothing_witness:
  "snd (priv_login exchange_500_env init) = Inr () \<and>
   \<not> connected (fst (priv_login exchange_500_env init)) \<and>
   config (fst (priv_login exchange_500_env init)) = config init"
proof -
  let ?u = "\<lparr>userId = JStr ''u1'', userEmail = JStr ''alice@example.org''\<rparr>"
  have a: "tries init < 3" by (simp add: init_def)
  have b: "server exchange_500_env (trace init) (auth_request exchange_500_env init)
             = Response auth_ok"
    by (simp add: exchange_500_env_def example_env_def script_server_def auth_request_def
          mkRequest_def init_def)
  have c: "status_code auth_ok = 200" by (simp add: auth_ok_def)
  have d: "auth_reply exchange_500_env auth_ok = Inr (''bearer-1'', ?u)"
    by (simp add: exchange_500_env_def example_env_def auth_reply_def auth_ok_def example_user_def)
  have f: "server exchange_500_env (trace init @ [Sent (auth_request exchange_500_env init)])
             (exchange_request exchange_500_env init ''bearer-1'' ?u) = Response (plain 500)"
    by (simp add: exchange_500_env_def example_env_def script_server_def exchange_request_def
          auth_request_def mkRequest_def init_def)
  have g: "status_code (plain 500) \<noteq> 201" "status_code (plain 500) \<noteq> 401"
    by (simp_all add: plain_def)
  show ?thesis
    using C7_failed_exchange_persists_nothing [OF a b c d f g] .
qed

text \<open>
  C8 at the failing input: the token exchange is answered with status 201 and a token
  object that has a token and no alias. Line 87 persists \<open>console_token\<close>, line 88 raises
  on the missing alias, the \<open>except\<close> clause only marks the session unauthenticated: one
  of the four keys is persisted, the other three are empty.
\<close>

theorem C8_partial_credentials:
  "config (fst (priv_login no_alias_env init)) ''console_token'' = JStr ''jwt-1'' \<and>
   config (fst (priv_login no_alias_env init)) ''console_alias'' = JStr [] \<and>
   config (fst (priv_login no_alias_env init)) ''console_user_id'' = JStr [] \<and>
   config (fst (priv_login no_alias_env init)) ''console_user_email'' = JStr [] \<and>
   \<not> connected (fst (priv_login no_alias_env init))"
  using no_alias_env_run .

text \<open>
  C9 at the failing input: the token exchange is answered with status 500. The login
  request goes out without an \<open>Authorization\<close> header, the exchange with the raw bearer
  token, and the status request that follows the failed login still carries the raw
  bearer token: line 109 sets it and no path of the failed exchange removes it.
\<close>

theorem C9_raw_token_after_failed_exchange:
  "auth_headers_sent (trace (fst (priv_trainingStatus exchange_500_env
      (fst (priv_login exchange_500_env init)) ''proj''))) =
     [None, Some ''bearer-1'', Some ''bearer-1'']"
  using exchange_500_run .

end
